theory Spec2Isabelle
  imports Main "HOL-Library.Sublist"
begin

section \<open>Text primitives of the Python runtime used by \<open>app.py\<close>\<close>

text \<open>
  A Python \<open>str\<close> is a sequence of code points. Text is modelled as \<^typ>\<open>string\<close>, a
  list of \<^typ>\<open>char\<close>, where a \<^typ>\<open>char\<close> stands for the code point of the same
  number: the model covers every text whose code points are below 256 (ASCII and
  Latin-1), and \<open>length\<close> counts code points there, as \<open>len\<close> does.
  The library functions below are Python's, restricted to that range.
\<close>

definition is_space :: "char \<Rightarrow> bool" where
  \<comment> \<open>the characters \<open>str.strip()\<close> removes: TAB..CR, FS..US, space, NEL, NBSP\<close>
  "is_space c =
     (let n = (of_char c :: nat)
      in (9 \<le> n \<and> n \<le> 13) \<or> (28 \<le> n \<and> n \<le> 32) \<or> n = 133 \<or> n = 160)"

definition strip :: "string \<Rightarrow> string" where
  \<comment> \<open>\<open>s.strip()\<close>\<close>
  "strip s = rev (dropWhile is_space (rev (dropWhile is_space s)))"

definition lower_char :: "char \<Rightarrow> char" where
  \<comment> \<open>A..Z and the Latin-1 capitals (all of 0xC0..0xDE but the sign 0xD7) move up by 32\<close>
  "lower_char c =
     (let n = (of_char c :: nat)
      in if (65 \<le> n \<and> n \<le> 90) \<or> (192 \<le> n \<and> n \<le> 222 \<and> n \<noteq> 215)
         then char_of (n + 32) else c)"

definition lower :: "string \<Rightarrow> string" where
  \<comment> \<open>\<open>s.lower()\<close>\<close>
  "lower s = map lower_char s"

definition upper_char :: "char \<Rightarrow> char" where
  \<comment> \<open>a..z move down by 32; \<open>capitalize\<close> below is only applied to keys of a..z\<close>
  "upper_char c =
     (let n = (of_char c :: nat)
      in if 97 \<le> n \<and> n \<le> 122 then char_of (n - 32) else c)"

fun capitalize :: "string \<Rightarrow> string" where
  \<comment> \<open>\<open>s.capitalize()\<close>: first character upper-cased, the rest lower-cased\<close>
  "capitalize [] = []"
| "capitalize (c # cs) = upper_char c # lower cs"

fun str_in :: "string \<Rightarrow> string \<Rightarrow> bool" where
  \<comment> \<open>\<open>needle in haystack\<close> on strings: substring containment\<close>
  "str_in needle [] = (needle = [])"
| "str_in needle (c # cs) = (prefix needle (c # cs) \<or> str_in needle cs)"

definition is_sep :: "char \<Rightarrow> bool" where
  \<comment> \<open>the character class \<open>[.\n]\<close>\<close>
  "is_sep c = (c = CHR ''.'' \<or> c = CHR 0x0A)"

function re_split :: "string \<Rightarrow> string list" where
  \<comment> \<open>\<open>re.split(r'[.\n]+', s)\<close>: the text before the next maximal run of separators,
      then the split of what follows the run; the last piece may be empty\<close>
  "re_split s =
     (let piece = takeWhile (\<lambda>c. \<not> is_sep c) s;
          rest = dropWhile (\<lambda>c. \<not> is_sep c) s
      in if rest = [] then [piece] else piece # re_split (dropWhile is_sep rest))"
  by pat_completeness auto
termination
proof (relation "measure length", goal_cases)
  case 1
  show ?case by simp
next
  case (2 s piece rest)
  from \<open>rest \<noteq> []\<close> obtain c cs where rest: "rest = c # cs"
    by (cases rest) auto
  have eq: "dropWhile (\<lambda>c. \<not> is_sep c) s = c # cs"
    using 2 rest by simp
  have "is_sep c"
    using hd_dropWhile [of "\<lambda>c. \<not> is_sep c" s] by (simp add: eq)
  then have "length (dropWhile is_sep rest) \<le> length cs"
    by (simp add: rest length_dropWhile_le)
  moreover have "length rest \<le> length s"
    using 2 by (simp add: length_dropWhile_le)
  ultimately show ?case
    by (simp add: rest)
qed

declare re_split.simps [simp del]

section \<open>Story synthesis: \<open>generate_user_stories\<close>\<close>

definition filler_prefixes :: "string list" where
  \<comment> \<open>the alternatives of the pattern given to \<open>re.sub\<close>, in the pattern's order\<close>
  "filler_prefixes =
     [''the system should '', ''the app should '', ''users can '',
      ''the user can '', ''it should '', ''should '']"

fun remove_first_prefix :: "string list \<Rightarrow> string \<Rightarrow> string" where
  "remove_first_prefix [] s = s"
| "remove_first_prefix (p # ps) s =
     (if prefix p s then drop (length p) s else remove_first_prefix ps s)"

definition re_sub_filler :: "string \<Rightarrow> string" where
  \<comment> \<open>\<open>re.sub(r'^(the system should |...|should )', '', action)\<close>: the pattern is
      anchored at the start of the string, so at most one match is replaced, and the
      first alternative that matches is taken\<close>
  "re_sub_filler action = remove_first_prefix filler_prefixes action"

definition story_of :: "string \<Rightarrow> string" where
  \<comment> \<open>the f-string of the loop body\<close>
  "story_of action =
     ''As a user, I want to '' @ action @ '' so that I can accomplish my goals efficiently.''"

definition default_story :: "string" where
  "default_story = ''As a user, I want to use the system so that I can accomplish my tasks.''"

fun stories_loop :: "string list \<Rightarrow> string list \<Rightarrow> string list" where
  \<comment> \<open>the \<open>for sentence in sentences\<close> loop, \<open>user_stories\<close> passed along\<close>
  "stories_loop [] user_stories = user_stories"
| "stories_loop (sentence # sentences) user_stories =
     (let sentence' = strip sentence
      in if length sentence' < 10 then stories_loop sentences user_stories
         else let action = lower sentence';
                  action' = re_sub_filler action;
                  story = story_of action'
              in stories_loop sentences (user_stories @ [story]))"

definition generate_user_stories :: "string \<Rightarrow> string list" where
  "generate_user_stories description =
     (let sentences = re_split description;
          user_stories = stories_loop sentences []
      in if user_stories = [] then [default_story] else user_stories)"

section \<open>Entity extraction: \<open>extract_entities\<close>\<close>

record entity_dict =
  entity :: string
  responsibilities :: string

definition entity_patterns :: "(string \<times> string) list" where
  \<comment> \<open>the dict literal, in insertion order, which is the order \<open>.items()\<close> iterates in\<close>
  "entity_patterns =
     [(''user'', ''Authenticate, view content, perform actions, manage profile''),
      (''admin'', ''Manage users, configure system, view reports, moderate content''),
      (''customer'', ''Browse products, place orders, track deliveries, leave reviews''),
      (''order'', ''Store order details, track status, calculate totals, manage items''),
      (''product'', ''Store product info, manage inventory, display details, handle pricing''),
      (''system'', ''Process requests, manage data, handle errors, provide services''),
      (''database'', ''Store data, handle queries, ensure integrity, manage backups''),
      (''payment'', ''Process transactions, validate cards, handle refunds, generate receipts''),
      (''report'', ''Aggregate data, generate visualizations, export formats, schedule delivery''),
      (''notification'', ''Send alerts, manage preferences, track delivery, handle templates''),
      (''project'', ''Store project info, track progress, manage members, handle deadlines''),
      (''task'', ''Track status, assign owners, set deadlines, manage dependencies''),
      (''file'', ''Store content, manage versions, handle uploads, control access''),
      (''message'', ''Store content, track read status, manage threads, handle attachments''),
      (''account'', ''Manage credentials, track activity, handle permissions, store preferences''),
      (''inventory'', ''Track quantities, manage locations, handle transfers, set alerts''),
      (''category'', ''Organize items, manage hierarchy, handle relationships, enable filtering''),
      (''review'', ''Store ratings, manage comments, track helpfulness, moderate content''),
      (''cart'', ''Manage items, calculate totals, handle quantities, persist session''),
      (''shipping'', ''Calculate costs, track packages, manage addresses, handle returns'')]"

fun entities_loop :: "(string \<times> string) list \<Rightarrow> string \<Rightarrow> entity_dict list \<Rightarrow> entity_dict list" where
  \<comment> \<open>the \<open>for entity, responsibilities in entity_patterns.items()\<close> loop\<close>
  "entities_loop [] description_lower entities = entities"
| "entities_loop ((kw, resp) # items) description_lower entities =
     (if str_in kw description_lower
      then entities_loop items description_lower
             (entities @ [\<lparr>entity = capitalize kw, responsibilities = resp\<rparr>])
      else entities_loop items description_lower entities)"

definition extract_entities :: "string \<Rightarrow> entity_dict list" where
  "extract_entities description =
     (let description_lower = lower description;
          entities = entities_loop entity_patterns description_lower []
      in if entities = []
         then [\<lparr>entity = ''System'',
                responsibilities = ''Handle core business logic and user interactions''\<rparr>]
         else entities)"

section \<open>Risk derivation: \<open>generate_risks\<close>\<close>

record risk_dict =
  risk :: string
  impact :: string
  likelihood :: string

definition generic_risks :: "risk_dict list" where
  "generic_risks =
     [\<lparr>risk = ''Performance issues with large datasets'', impact = ''Medium'', likelihood = ''Medium''\<rparr>,
      \<lparr>risk = ''Security vulnerabilities in user input handling'', impact = ''High'', likelihood = ''Medium''\<rparr>,
      \<lparr>risk = ''Insufficient error handling causing poor user experience'', impact = ''Medium'', likelihood = ''High''\<rparr>]"

definition keyword_risks :: "(string \<times> risk_dict) list" where
  "keyword_risks =
     [(''payment'',
        \<lparr>risk = ''Payment gateway integration failure'', impact = ''High'', likelihood = ''Low''\<rparr>),
      (''user data'',
        \<lparr>risk = ''User data privacy and GDPR compliance issues'', impact = ''High'', likelihood = ''Medium''\<rparr>),
      (''password'',
        \<lparr>risk = ''Weak password storage leading to data breach'', impact = ''High'', likelihood = ''Medium''\<rparr>),
      (''upload'',
        \<lparr>risk = ''Malicious file upload vulnerability'', impact = ''High'', likelihood = ''Medium''\<rparr>),
      (''api'',
        \<lparr>risk = ''API rate limiting and availability issues'', impact = ''Medium'', likelihood = ''Medium''\<rparr>),
      (''database'',
        \<lparr>risk = ''Database corruption or data loss'', impact = ''High'', likelihood = ''Low''\<rparr>),
      (''real-time'',
        \<lparr>risk = ''Real-time synchronization failures'', impact = ''Medium'', likelihood = ''Medium''\<rparr>),
      (''notification'',
        \<lparr>risk = ''Notification delivery failures or spam issues'', impact = ''Low'', likelihood = ''Medium''\<rparr>),
      (''third-party'',
        \<lparr>risk = ''Third-party service dependency and downtime'', impact = ''Medium'', likelihood = ''Medium''\<rparr>),
      (''mobile'',
        \<lparr>risk = ''Cross-platform compatibility issues'', impact = ''Medium'', likelihood = ''High''\<rparr>)]"

fun risks_loop :: "(string \<times> risk_dict) list \<Rightarrow> string \<Rightarrow> risk_dict list \<Rightarrow> risk_dict list" where
  \<comment> \<open>the \<open>for keyword, risk_data in keyword_risks.items()\<close> loop\<close>
  "risks_loop [] description_lower risks = risks"
| "risks_loop ((keyword, risk_data) # items) description_lower risks =
     (if str_in keyword description_lower
      then risks_loop items description_lower (risks @ [risk_data])
      else risks_loop items description_lower risks)"

definition generate_risks :: "string \<Rightarrow> risk_dict list" where
  "generate_risks description =
     (let description_lower = lower description;
          risks = [] @ generic_risks
      in risks_loop keyword_risks description_lower risks)"

section \<open>The routes and the session\<close>

text \<open>
  The session is the only state of the program. Its three keys are the fields of a record,
  \<open>None\<close> for a key that is absent. A handler takes the session and returns its response
  and the session it leaves. Templates and the PDF library are outside the program: a
  response keeps what the handler hands to them.
\<close>

record analysis_dict =
  a_description :: string
  a_user_stories :: "string list"
  a_entities :: "entity_dict list"
  a_risks :: "risk_dict list"

record session =
  s_analysis :: "analysis_dict option"
  s_user_stories :: "string list option"
  s_demo_description :: "string option"

definition empty_session :: session where
  "empty_session = \<lparr>s_analysis = None, s_user_stories = None, s_demo_description = None\<rparr>"

datatype response =
    Redirect string  \<comment> \<open>\<open>redirect(url_for(endpoint))\<close>\<close>
  | Render_index string  \<comment> \<open>\<open>index.html\<close> with \<open>description\<close>\<close>
  | Render_results string "string list" "entity_dict list" "risk_dict list"
      \<comment> \<open>\<open>results.html\<close> with the four values read from the analysis\<close>
  | Send_pdf "string list"  \<comment> \<open>the PDF sent as a file: the lines of text put on its page\<close>

definition index :: "session \<Rightarrow> response \<times> session" where
  "index s =
     (let demo_description = (case s_demo_description s of None \<Rightarrow> [] | Some d \<Rightarrow> d)
      in (Render_index demo_description, s))"

definition analyze :: "string option \<Rightarrow> session \<Rightarrow> response \<times> session" where
  \<comment> \<open>the first argument is the form's field \<open>description\<close>, \<open>None\<close> when the form has none\<close>
  "analyze form_description s =
     (let description = strip (case form_description of None \<Rightarrow> [] | Some d \<Rightarrow> d)
      in if description = [] then (Redirect ''index'', s)
         else let user_stories = generate_user_stories description;
                  entities = extract_entities description;
                  risks = generate_risks description
              in (Redirect ''results'',
                  s\<lparr>s_analysis := Some \<lparr>a_description = description,
                                         a_user_stories = user_stories,
                                         a_entities = entities,
                                         a_risks = risks\<rparr>,
                    s_user_stories := Some user_stories,
                    s_demo_description := None\<rparr>))"

definition results :: "session \<Rightarrow> response \<times> session" where
  "results s =
     (case s_analysis s of
        None \<Rightarrow> (Redirect ''index'', s)
      | Some analysis \<Rightarrow>
          (Render_results (a_description analysis) (a_user_stories analysis)
             (a_entities analysis) (a_risks analysis), s))"

definition sample_description :: string where
  "sample_description =
     ''The system should allow users to register and login securely.'' @ [CHR 0x0A] @
     ''Users can create and manage their projects.'' @ [CHR 0x0A] @
     ''Each project can have multiple tasks with deadlines.'' @ [CHR 0x0A] @
     ''Admins can view reports and manage all users.'' @ [CHR 0x0A] @
     ''The system should send notifications for upcoming deadlines.'' @ [CHR 0x0A] @
     ''Users can upload files and attach them to tasks.'' @ [CHR 0x0A] @
     ''The database should store all project and task information.'' @ [CHR 0x0A] @
     ''Users can search and filter their tasks by status or date.''"

definition demo :: "session \<Rightarrow> response \<times> session" where
  "demo s = (Redirect ''index'', s\<lparr>s_demo_description := Some sample_description\<rparr>)"

definition export_stories_pdf :: "session \<Rightarrow> response \<times> session" where
  \<comment> \<open>\<open>not stories\<close> holds of an absent key and of the empty list\<close>
  "export_stories_pdf s =
     (case s_user_stories s of
        None \<Rightarrow> (Redirect ''index'', s)
      | Some stories \<Rightarrow>
          if stories = [] then (Redirect ''index'', s)
          else (Send_pdf (''SpecGenie - User Stories'' # map (\<lambda>st. ''- '' @ st) stories), s))"

datatype request =
    Get_index
  | Post_analyze "string option"
  | Get_results
  | Get_demo
  | Get_export_stories_pdf

fun handle :: "request \<Rightarrow> session \<Rightarrow> response \<times> session" where
  "handle Get_index s = index s"
| "handle (Post_analyze form_description) s = analyze form_description s"
| "handle Get_results s = results s"
| "handle Get_demo s = demo s"
| "handle Get_export_stories_pdf s = export_stories_pdf s"

inductive reachable :: "session \<Rightarrow> bool" where
  \<comment> \<open>the sessions a browser can hold: a fresh one, and what a request leaves of one\<close>
  fresh: "reachable empty_session"
| request: "reachable s \<Longrightarrow> reachable (snd (handle r s))"

section \<open>The tables and the split, checked\<close>

text \<open>
  No key is written twice in a dict literal, so the association lists are the dicts; the
  keys of the entity table are made of the letters a to z, where \<open>capitalize\<close> is
  Python's. The split keeps the empty pieces at both ends and no separator in a piece.
\<close>

lemma tables_have_distinct_keys:
  "distinct (map fst entity_patterns) \<and> distinct (map fst keyword_risks)"
  by code_simp

lemma entity_keys_lower_ascii:
  "list_all (list_all (\<lambda>c. c \<in> set ''abcdefghijklmnopqrstuvwxyz'')) (map fst entity_patterns)"
  by code_simp

lemma re_split_examples:
  "re_split '''' = ['''']
   \<and> re_split ''..a.b'' = ['''', ''a'', ''b'']
   \<and> re_split (''a'' @ [CHR 0x0A] @ ''.b.'') = [''a'', ''b'', '''']"
  by code_simp

section \<open>The loops in closed form\<close>

text \<open>
  \<open>str_in\<close> is containment of a contiguous block, the library's \<open>sublist\<close>; each
  accumulating loop is its accumulator followed by a filter and a map of what it iterates over.
\<close>

lemma str_in_sublist: "str_in needle s \<longleftrightarrow> sublist needle s"
  by (induction s) (simp_all add: sublist_Cons_right)

lemma stories_loop_eq:
  "stories_loop sentences acc =
     acc @ map (\<lambda>s. story_of (re_sub_filler (lower s)))
             (filter (\<lambda>s. \<not> length s < 10) (map strip sentences))"
  by (induction sentences arbitrary: acc) (simp_all add: Let_def)

lemma entities_loop_eq:
  "entities_loop items dl acc =
     acc @ map (\<lambda>(kw, resp). \<lparr>entity = capitalize kw, responsibilities = resp\<rparr>)
             (filter (\<lambda>(kw, resp). str_in kw dl) items)"
  by (induction items dl acc rule: entities_loop.induct) simp_all

lemma risks_loop_eq:
  "risks_loop items dl acc = acc @ map snd (filter (\<lambda>(kw, r). str_in kw dl) items)"
  by (induction items dl acc rule: risks_loop.induct) simp_all

lemma generate_risks_eq:
  "generate_risks d =
     generic_risks @ map snd (filter (\<lambda>(kw, r). str_in kw (lower d)) keyword_risks)"
  by (simp add: generate_risks_def risks_loop_eq)

lemma risk_table_distinct: "distinct (generic_risks @ map snd keyword_risks)"
  by code_simp

lemma generate_risks_distinct: "distinct (generate_risks d)"
proof -
  let ?P = "\<lambda>(kw, r). str_in kw (lower d)"
  from risk_table_distinct
  have g: "distinct generic_risks" and k: "distinct (map snd keyword_risks)"
    and gk: "set generic_risks \<inter> set (map snd keyword_risks) = {}"
    by simp_all
  have "distinct (map snd (filter ?P keyword_risks))"
    using k by (rule distinct_map_filter)
  moreover have "set (map snd (filter ?P keyword_risks)) \<subseteq> set (map snd keyword_risks)"
    by auto
  ultimately show ?thesis
    using g gk unfolding generate_risks_eq by (simp only: distinct_append) blast
qed

lemma count_list_distinct: "distinct xs \<Longrightarrow> x \<in> set xs \<Longrightarrow> count_list xs x = 1"
  by (induction xs) auto

lemma re_split_last:
  "dropWhile (\<lambda>c. \<not> is_sep c) s = [] \<Longrightarrow> re_split s = [takeWhile (\<lambda>c. \<not> is_sep c) s]"
  by (subst re_split.simps) (simp only: Let_def refl if_True)

lemma re_split_more:
  "dropWhile (\<lambda>c. \<not> is_sep c) s \<noteq> [] \<Longrightarrow>
   re_split s =
     takeWhile (\<lambda>c. \<not> is_sep c) s # re_split (dropWhile is_sep (dropWhile (\<lambda>c. \<not> is_sep c) s))"
  by (subst re_split.simps) (simp only: Let_def if_False)

lemma re_split_pieces: "p \<in> set (re_split s) \<Longrightarrow> set p \<subseteq> set s"
proof (induction s arbitrary: p rule: re_split.induct)
  case (1 s)
  let ?piece = "takeWhile (\<lambda>c. \<not> is_sep c) s"
  let ?rest = "dropWhile (\<lambda>c. \<not> is_sep c) s"
  have piece: "set ?piece \<subseteq> set s"
    by (auto dest: set_takeWhileD)
  show ?case
  proof (cases "?rest = []")
    case True
    with "1.prems" have "p = ?piece"
      by (simp only: re_split_last [OF True] list.set singleton_iff)
    with piece show ?thesis by simp
  next
    case False
    with "1.prems" have "p = ?piece \<or> p \<in> set (re_split (dropWhile is_sep ?rest))"
      by (simp only: re_split_more [OF False] set_ConsD)
    then show ?thesis
    proof
      assume "p = ?piece"
      with piece show ?thesis by simp
    next
      assume "p \<in> set (re_split (dropWhile is_sep ?rest))"
      then have "set p \<subseteq> set (dropWhile is_sep ?rest)"
        using "1.IH" [OF refl refl False] by simp
      then show ?thesis
        by (auto dest!: set_dropWhileD)
    qed
  qed
qed

lemma re_split_no_sep: "p \<in> set (re_split s) \<Longrightarrow> \<forall>c\<in>set p. \<not> is_sep c"
proof (induction s arbitrary: p rule: re_split.induct)
  case (1 s)
  let ?piece = "takeWhile (\<lambda>c. \<not> is_sep c) s"
  let ?rest = "dropWhile (\<lambda>c. \<not> is_sep c) s"
  have piece: "\<forall>c\<in>set ?piece. \<not> is_sep c"
    by (auto dest: set_takeWhileD)
  show ?case
  proof (cases "?rest = []")
    case True
    with "1.prems" have "p = ?piece"
      by (simp only: re_split_last [OF True] list.set singleton_iff)
    with piece show ?thesis by simp
  next
    case False
    with "1.prems" have "p = ?piece \<or> p \<in> set (re_split (dropWhile is_sep ?rest))"
      by (simp only: re_split_more [OF False] set_ConsD)
    with piece "1.IH" [OF refl refl False] show ?thesis
      by blast
  qed
qed

lemma strip_spaces:
  assumes "\<forall>c\<in>set s. is_space c"
  shows "strip s = []"
proof -
  from assms have "dropWhile is_space s = []" by simp
  then show ?thesis by (simp only: strip_def rev.simps dropWhile.simps)
qed

lemma re_split_nonempty: "re_split s \<noteq> []"
  by (subst re_split.simps) (simp add: Let_def)

lemma story_of_shape:
  "prefix ''As a user, I want to '' (story_of a) \<and>
   suffix '' so that I can accomplish my goals efficiently.'' (story_of a)"
  unfolding story_of_def
  by (intro conjI prefixI suffixI [where zs = "''As a user, I want to '' @ a"]) simp_all

lemma extract_entities_eq:
  "extract_entities d =
     (let hits = filter (\<lambda>(kw, resp). str_in kw (lower d)) entity_patterns
      in if hits = []
         then [\<lparr>entity = ''System'',
                responsibilities = ''Handle core business logic and user interactions''\<rparr>]
         else map (\<lambda>(kw, resp). \<lparr>entity = capitalize kw, responsibilities = resp\<rparr>) hits)"
  by (simp add: extract_entities_def entities_loop_eq Let_def)

text \<open>
  The two session keys written by \<open>analyze\<close> are present together or absent together in
  every session that requests can produce.
\<close>

lemma handle_keys_together:
  "(s_analysis s = None \<longleftrightarrow> s_user_stories s = None) \<Longrightarrow>
   (s_analysis (snd (handle r s)) = None \<longleftrightarrow> s_user_stories (snd (handle r s)) = None)"
  by (cases r)
    (auto simp add: index_def analyze_def results_def demo_def export_stories_pdf_def Let_def
      split: option.splits)

lemma reachable_keys_together:
  "reachable s \<Longrightarrow> (s_analysis s = None \<longleftrightarrow> s_user_stories s = None)"
proof (induction rule: reachable.induct)
  case fresh
  show ?case by (simp add: empty_session_def)
next
  case (request s r)
  then show ?case by (intro handle_keys_together)
qed

section \<open>Story synthesis on the two-sentence example\<close>

text \<open>
  Claim C1, as the code has it. On the input
  \<open>The system should allow login. Users can upload files.\<close> the function
  \<open>generate_user_stories\<close> returns exactly two stories, in the order of the sentences.
  The split gives three pieces, the last one empty; the first story is the template around
  the action \<open>allow login\<close> (the filler \<open>the system should \<close> removed), the second the
  template around the action \<open>upload files\<close> (the filler \<open>users can \<close> removed). The
  full stop is a separator of the split, so it is part of no action.
\<close>

theorem synthesize_two_sentences:
  "generate_user_stories ''The system should allow login. Users can upload files.'' =
     [''As a user, I want to allow login so that I can accomplish my goals efficiently.'',
      ''As a user, I want to upload files so that I can accomplish my goals efficiently.'']
   \<and> re_split ''The system should allow login. Users can upload files.'' =
       [''The system should allow login'', '' Users can upload files'', '''']
   \<and> re_sub_filler (lower (strip ''The system should allow login'')) = ''allow login''
   \<and> re_sub_filler (lower (strip '' Users can upload files'')) = ''upload files''
   \<and> story_of ''allow login'' =
       ''As a user, I want to allow login so that I can accomplish my goals efficiently.''
   \<and> story_of ''upload files'' =
       ''As a user, I want to upload files so that I can accomplish my goals efficiently.''"
  by code_simp

text \<open>
  Claim C1 as the specification words it has the second action end in a full stop,
  \<open>upload files.\<close>; the list built from that action is not what the function returns.
\<close>

theorem synthesize_drops_the_period:
  "generate_user_stories ''The system should allow login. Users can upload files.'' \<noteq>
     [story_of ''allow login'', story_of ''upload files.'']"
  by code_simp

section \<open>The risks returned\<close>

text \<open>
  Claim C2, as the code has it. \<open>generate_risks\<close> returns the three generic risks followed
  by the risk of every keyword of the table that occurs in the lower-cased text, in the
  table's order. Nothing is removed or cut off afterwards: the length is three plus the
  number of keywords found, which is at most 13. The thirteen risks of the two tables are
  pairwise different and every keyword is tested once, so no risk is returned twice.
\<close>

theorem derive_appends_matches:
  "generate_risks d =
     generic_risks @ map snd (filter (\<lambda>(kw, r). str_in kw (lower d)) keyword_risks)
   \<and> length (generate_risks d) =
       3 + length (filter (\<lambda>(kw, r). str_in kw (lower d)) keyword_risks)
   \<and> length (generate_risks d) \<le> 13
   \<and> distinct (generate_risks d)"
proof -
  let ?hits = "filter (\<lambda>(kw, r). str_in kw (lower d)) keyword_risks"
  have g: "length generic_risks = 3"
    by (simp add: generic_risks_def)
  have "length ?hits \<le> length keyword_risks"
    by (rule length_filter_le)
  also have "length keyword_risks = 10"
    by (simp add: keyword_risks_def)
  finally have hits: "length ?hits \<le> 10" .
  show ?thesis
    using g hits generate_risks_distinct [of d] by (simp add: generate_risks_eq)
qed

text \<open>
  Claim C2 as the specification words it says that duplicate risks are possible in the
  output. No input text produces one.
\<close>

theorem derive_never_duplicates: "\<not> (\<exists>d. \<not> distinct (generate_risks d))"
  by (simp add: generate_risks_distinct)

text \<open>
  Claim C3. For every input text \<open>generate_risks\<close> returns at least three risks, and the
  first three are the generic risks in their fixed order: performance (Medium, Medium),
  input-handling security (High, Medium), error handling (Medium, High).
\<close>

theorem derive_baseline_first:
  "3 \<le> length (generate_risks d)
   \<and> take 3 (generate_risks d) =
       [\<lparr>risk = ''Performance issues with large datasets'',
          impact = ''Medium'', likelihood = ''Medium''\<rparr>,
        \<lparr>risk = ''Security vulnerabilities in user input handling'',
          impact = ''High'', likelihood = ''Medium''\<rparr>,
        \<lparr>risk = ''Insufficient error handling causing poor user experience'',
          impact = ''Medium'', likelihood = ''High''\<rparr>]"
  by (simp add: generate_risks_eq generic_risks_def)


section \<open>Stories are never missing\<close>

text \<open>
  Claim C4. For every input text \<open>generate_user_stories\<close> returns a non-empty list; for
  the empty text and for a text made of whitespace only (the characters \<open>strip\<close> removes,
  the line feed among them) it returns exactly the one default story.
\<close>

theorem synthesize_nonempty:
  "generate_user_stories d \<noteq> []
   \<and> ((\<forall>c\<in>set d. is_space c) \<longrightarrow>
        generate_user_stories d =
          [''As a user, I want to use the system so that I can accomplish my tasks.''])"
proof (intro conjI impI)
  show "generate_user_stories d \<noteq> []"
    by (simp add: generate_user_stories_def Let_def)
next
  assume blank: "\<forall>c\<in>set d. is_space c"
  have "length (strip p) < 10" if "p \<in> set (re_split d)" for p
  proof -
    from that have "set p \<subseteq> set d" by (rule re_split_pieces)
    with blank have "\<forall>c\<in>set p. is_space c" by blast
    then show ?thesis by (simp add: strip_spaces)
  qed
  then have "filter (\<lambda>s. \<not> length s < 10) (map strip (re_split d)) = []"
    by (simp add: filter_empty_conv)
  then have "stories_loop (re_split d) [] = []"
    by (simp add: stories_loop_eq)
  then show "generate_user_stories d =
      [''As a user, I want to use the system so that I can accomplish my tasks.'']"
    by (simp add: generate_user_stories_def default_story_def)
qed

text \<open>The blank text of a space, a line feed, a tab and a space, and the empty text.\<close>

theorem synthesize_nonempty_witness:
  "list_all is_space [CHR '' '', CHR 0x0A, CHR 0x09, CHR '' '']
   \<and> generate_user_stories [CHR '' '', CHR 0x0A, CHR 0x09, CHR '' ''] =
       [''As a user, I want to use the system so that I can accomplish my tasks.'']
   \<and> generate_user_stories [] =
       [''As a user, I want to use the system so that I can accomplish my tasks.'']"
proof -
  have h: "list_all is_space [CHR '' '', CHR 0x0A, CHR 0x09, CHR '' '']"
    by code_simp
  then have "\<forall>c\<in>set [CHR '' '', CHR 0x0A, CHR 0x09, CHR '' '']. is_space c"
    by (simp only: list_all_iff)
  with synthesize_nonempty [of "[CHR '' '', CHR 0x0A, CHR 0x09, CHR '' '']"]
    synthesize_nonempty [of "[]"] h
  show ?thesis by simp
qed

text \<open>
  Claim C10. For every input text, every story returned by \<open>generate_user_stories\<close> starts
  with \<open>As a user, I want to \<close>, and it ends with
  \<open> so that I can accomplish my goals efficiently.\<close> or is the default story.
\<close>

theorem stories_follow_template:
  "\<forall>s\<in>set (generate_user_stories d).
     prefix ''As a user, I want to '' s
     \<and> (suffix '' so that I can accomplish my goals efficiently.'' s
        \<or> s = ''As a user, I want to use the system so that I can accomplish my tasks.'')"
proof
  fix s
  assume s: "s \<in> set (generate_user_stories d)"
  let ?P = "\<lambda>s. prefix ''As a user, I want to '' s
     \<and> (suffix '' so that I can accomplish my goals efficiently.'' s
        \<or> s = ''As a user, I want to use the system so that I can accomplish my tasks.'')"
  show "?P s"
  proof (cases "stories_loop (re_split d) [] = []")
    case True
    with s have "s = default_story"
      by (simp add: generate_user_stories_def)
    then show ?thesis
      by (simp add: default_story_def)
  next
    case False
    with s have "s \<in> set (stories_loop (re_split d) [])"
      by (simp add: generate_user_stories_def)
    then obtain a where "s = story_of a"
      by (auto simp add: stories_loop_eq)
    with story_of_shape [of a] show ?thesis
      by simp
  qed
qed

text \<open>The two stories of the two-sentence example have this shape.\<close>

theorem stories_follow_template_witness:
  "list_all (\<lambda>s. prefix ''As a user, I want to '' s
       \<and> (suffix '' so that I can accomplish my goals efficiently.'' s
          \<or> s = ''As a user, I want to use the system so that I can accomplish my tasks.''))
     (generate_user_stories ''The system should allow login. Users can upload files.'')
   \<and> length (generate_user_stories ''The system should allow login. Users can upload files.'') = 2"
proof -
  have "length (generate_user_stories ''The system should allow login. Users can upload files.'') = 2"
    by code_simp
  with stories_follow_template [of "''The system should allow login. Users can upload files.''"]
  show ?thesis by (simp only: list_all_iff simp_thms)
qed

section \<open>Entities are never missing\<close>

text \<open>
  Claim C5. For every input text \<open>extract_entities\<close> returns a non-empty list; when no
  keyword of the table is a substring of the lower-cased text it returns exactly one
  entity, named \<open>System\<close>, with the responsibilities
  \<open>Handle core business logic and user interactions\<close>.
\<close>

theorem extract_nonempty:
  "extract_entities d \<noteq> []
   \<and> ((\<forall>kw\<in>set (map fst entity_patterns). \<not> str_in kw (lower d)) \<longrightarrow>
        extract_entities d =
          [\<lparr>entity = ''System'',
            responsibilities = ''Handle core business logic and user interactions''\<rparr>])"
proof (intro conjI impI)
  show "extract_entities d \<noteq> []"
    by (simp add: extract_entities_eq Let_def)
next
  assume "\<forall>kw\<in>set (map fst entity_patterns). \<not> str_in kw (lower d)"
  then have "filter (\<lambda>(kw, resp). str_in kw (lower d)) entity_patterns = []"
    by (auto simp add: filter_empty_conv)
  then show "extract_entities d =
      [\<lparr>entity = ''System'',
        responsibilities = ''Handle core business logic and user interactions''\<rparr>]"
    by (simp add: extract_entities_eq)
qed

text \<open>The text \<open>Hello, World!\<close> holds none of the twenty keywords.\<close>

theorem extract_nonempty_witness:
  "list_all (\<lambda>kw. \<not> str_in kw (lower ''Hello, World!'')) (map fst entity_patterns)
   \<and> extract_entities ''Hello, World!'' =
       [\<lparr>entity = ''System'',
         responsibilities = ''Handle core business logic and user interactions''\<rparr>]"
proof -
  have h: "list_all (\<lambda>kw. \<not> str_in kw (lower ''Hello, World!'')) (map fst entity_patterns)"
    by code_simp
  then have "\<forall>kw\<in>set (map fst entity_patterns). \<not> str_in kw (lower ''Hello, World!'')"
    by (simp only: list_all_iff)
  with extract_nonempty [of "''Hello, World!''"] h show ?thesis by simp
qed

section \<open>Keyword-triggered risks and entities\<close>

text \<open>
  Claim C6. For every input text whose lower-casing contains \<open>payment\<close>, the risks returned
  by \<open>generate_risks\<close> hold the payment-gateway risk (High, Low) exactly once, however
  often the keyword occurs.
\<close>

theorem derive_payment_once:
  "str_in ''payment'' (lower d) \<Longrightarrow>
   count_list (generate_risks d)
     \<lparr>risk = ''Payment gateway integration failure'',
      impact = ''High'', likelihood = ''Low''\<rparr> = 1"
proof -
  assume hit: "str_in ''payment'' (lower d)"
  let ?r = "\<lparr>risk = ''Payment gateway integration failure'',
              impact = ''High'', likelihood = ''Low''\<rparr>"
  have "(''payment'', ?r) \<in> set keyword_risks"
    by (simp add: keyword_risks_def)
  with hit have "(''payment'', ?r) \<in> set (filter (\<lambda>(kw, r). str_in kw (lower d)) keyword_risks)"
    by simp
  then have "?r \<in> set (generate_risks d)"
    unfolding generate_risks_eq by force
  with generate_risks_distinct [of d] show ?thesis
    by (rule count_list_distinct)
qed

text \<open>A text with three occurrences of the keyword, in three spellings.\<close>

theorem derive_payment_once_witness:
  "str_in ''payment'' (lower ''Payment by card. PAYMENT by payment plan.'')
   \<and> count_list (generate_risks ''Payment by card. PAYMENT by payment plan.'')
       \<lparr>risk = ''Payment gateway integration failure'',
        impact = ''High'', likelihood = ''Low''\<rparr> = 1"
proof -
  have h: "str_in ''payment'' (lower ''Payment by card. PAYMENT by payment plan.'')"
    by code_simp
  from h derive_payment_once [OF h] show ?thesis by simp
qed



section \<open>The routes without an analysis\<close>

text \<open>
  Claim C8. In a session that holds no analysis, the results route and the stories-export
  route both answer with a redirect to the index page and leave the session as it is:
  nothing is rendered and no file is sent. Neither route calls one of the three
  generating functions, with or without an analysis. The session is any session that
  requests can produce from a fresh one.
\<close>

theorem no_analysis_redirects:
  "reachable s \<Longrightarrow> s_analysis s = None \<Longrightarrow>
   results s = (Redirect ''index'', s) \<and> export_stories_pdf s = (Redirect ''index'', s)"
proof -
  assume r: "reachable s" and none: "s_analysis s = None"
  from reachable_keys_together [OF r] none have "s_user_stories s = None"
    by simp
  with none show ?thesis
    by (simp add: results_def export_stories_pdf_def)
qed

text \<open>The session left by the demo route holds a demo description and no analysis.\<close>

theorem no_analysis_redirects_witness:
  "reachable (snd (handle Get_demo empty_session))
   \<and> s_analysis (snd (handle Get_demo empty_session)) = None
   \<and> results (snd (handle Get_demo empty_session)) =
       (Redirect ''index'', snd (handle Get_demo empty_session))
   \<and> export_stories_pdf (snd (handle Get_demo empty_session)) =
       (Redirect ''index'', snd (handle Get_demo empty_session))"
proof -
  have r: "reachable (snd (handle Get_demo empty_session))"
    by (intro reachable.intros)
  have n: "s_analysis (snd (handle Get_demo empty_session)) = None"
    by (simp add: demo_def empty_session_def)
  from r n no_analysis_redirects [OF r n] show ?thesis by simp
qed

section \<open>Determinism\<close>

text \<open>
  Claim C9. Each of the three functions reads its argument and its constant tables only,
  so it is a function of the text: equal texts give equal stories, entities and risks. The
  session is the one piece of state the program has, and it has no part in the outcome:
  whatever the sessions are in which the same text is analysed, the response is the same,
  and so are the analysis and the stories that are stored.
\<close>

theorem core_functions_deterministic:
  "d = d' \<Longrightarrow>
   generate_user_stories d = generate_user_stories d'
   \<and> extract_entities d = extract_entities d'
   \<and> generate_risks d = generate_risks d'
   \<and> fst (analyze (Some d) s) = fst (analyze (Some d') s')
   \<and> (strip d \<noteq> [] \<longrightarrow>
        s_analysis (snd (analyze (Some d) s)) = s_analysis (snd (analyze (Some d') s'))
        \<and> s_user_stories (snd (analyze (Some d) s)) = s_user_stories (snd (analyze (Some d') s')))"
  by (simp add: analyze_def Let_def)

text \<open>The same text analysed in a fresh session and in the session the demo route leaves.\<close>

theorem core_functions_deterministic_witness:
  "generate_user_stories ''Users can upload files'' = generate_user_stories ''Users can upload files''
   \<and> extract_entities ''Users can upload files'' = extract_entities ''Users can upload files''
   \<and> generate_risks ''Users can upload files'' = generate_risks ''Users can upload files''
   \<and> fst (analyze (Some ''Users can upload files'') empty_session) =
       fst (analyze (Some ''Users can upload files'') (snd (demo empty_session)))
   \<and> s_analysis (snd (analyze (Some ''Users can upload files'') empty_session)) =
       s_analysis (snd (analyze (Some ''Users can upload files'') (snd (demo empty_session))))"
proof -
  have ne: "strip ''Users can upload files'' \<noteq> []"
    by code_simp
  from core_functions_deterministic [OF refl, of "''Users can upload files''" empty_session "snd (demo empty_session)"] ne
  show ?thesis by simp
qed

end
